theory Spec2Isabelle
  imports Complex_Main
begin

section \<open>Moving least squares coefficients (ArborX interpolation details)\<close>

text \<open>
  The development embeds the function template \<open>movingLeastSquaresCoefficients\<close> of
  \<^verbatim>\<open>ArborX_InterpDetailsMovingLeastSquaresCoefficients.hpp\<close>.

  The template is generic in its scalar type \<open>CoefficientsType\<close>; the embedding is
  generic in a type \<open>'a\<close> that only has to offer the operations the code uses
  (\<open>0\<close>, \<open>+\<close>, \<open>-\<close>, \<open>*\<close>, \<open>/\<close>, \<open><\<close> and numerals).  Each theorem names the
  algebraic laws it relies on through the sort of \<open>'a\<close> or through a premise; rounding
  of a floating-point instance is outside the embedding, overflow to an infinity and
  NaN are met in the scalar type \<open>scalar\<close> below.  Loop counters and extents
  are natural numbers (the narrowing of extents to \<open>int\<close> is not modelled).  The
  profiling regions carry no data and are left out.
\<close>

subsection \<open>Data\<close>

type_synonym 'a point = "'a list"

text \<open>\<open>SourcePoints\<close>: a rank-2 Kokkos view of points, read through its two extents
  and \<open>operator()(i, j)\<close>.\<close>

record 'a source_view =
  extent0 :: nat
  extent1 :: nat
  view_at :: "nat \<Rightarrow> nat \<Rightarrow> 'a point"

text \<open>\<open>TargetPoints\<close>, read through \<open>AccessTraits::size\<close> and \<open>AccessTraits::get\<close>.\<close>

record 'a target_access =
  acc_size :: nat
  acc_get :: "nat \<Rightarrow> 'a point"

text \<open>
  The template arguments and what the function takes from its collaborators, none of
  which is defined in the file itself:
  \<^item> \<open>epsilon\<close> is \<open>Kokkos::Experimental::epsilon_v<CoefficientsType>\<close>;
  \<^item> \<open>distance\<close> is \<open>ArborX::Details::distance\<close> on two points;
  \<^item> \<open>evaluate\<close> is \<open>CRBF::evaluate\<close>;
  \<^item> \<open>evaluatePolynomialBasis\<close> is \<open>evaluatePolynomialBasis<degree>\<close> and
    \<open>poly_size\<close> is \<open>polynomialBasisSize<dimension, degree>()\<close>;
  \<^item> \<open>symmetricPseudoInverseSVD\<close> is the in-place batched pseudo-inverse, as the
    function from the old contents of its view to the new ones;
  \<^item> \<open>dimension\<close> and \<open>target_dimension\<close> are \<open>GeometryTraits::dimension_v\<close> of the
    source and the target point types;
  \<^item> the three flags are the values of \<open>KokkosExt::is_accessible_from\<close> for the memory
    space, the source points and the target points.
\<close>

record 'a template_args =
  epsilon :: 'a
  distance :: "'a point \<Rightarrow> 'a point \<Rightarrow> 'a"
  evaluate :: "'a \<Rightarrow> 'a"
  evaluatePolynomialBasis :: "'a point \<Rightarrow> 'a list"
  poly_size :: nat
  symmetricPseudoInverseSVD :: "'a list list list \<Rightarrow> 'a list list list"
  dimension :: nat
  target_dimension :: nat
  memory_accessible :: bool
  source_accessible :: bool
  target_accessible :: bool

text \<open>
  The memory the call works on: the two inputs, the six views the function allocates
  (named after their labels; \<open>vandermonde\<close> is the source's \<open>p\<close>, \<open>moment\<close> its \<open>a\<close>),
  and the labels of the kernels dispatched so far.
\<close>

record 'a memory =
  source_points :: "'a source_view"
  target_points :: "'a target_access"
  source_ref_target :: "'a point list list"
  radii :: "'a list"
  phi :: "'a list list"
  vandermonde :: "'a list list list"
  moment :: "'a list list list"
  coeffs :: "'a list list"
  dispatched :: "string list"

datatype error = StaticAssertion string | KokkosAssertion string

subsection \<open>Control structure\<close>

text \<open>\<open>for (int k = first; k < n; k++) body\<close>, threading the variables the body
  updates.\<close>

function for_loop :: "nat \<Rightarrow> nat \<Rightarrow> (nat \<Rightarrow> 's \<Rightarrow> 's) \<Rightarrow> 's \<Rightarrow> 's" where
  "for_loop k n body s = (if k < n then for_loop (Suc k) n body (body k s) else s)"
  by pat_completeness auto
termination
  by (relation "measure (\<lambda>(k, n, body, s). n - k)") auto

declare for_loop.simps [simp del]

text \<open>
  \<open>Kokkos::parallel_for\<close> over a range or a rectangular multi-dimensional range.  Every
  iteration of the kernels below writes the slot of its own index only, and reads
  views filled by earlier kernels only, so the view a kernel fills is the table of
  the values its iterations write, whatever their order.
\<close>

definition parallel_for_1 :: "nat \<Rightarrow> (nat \<Rightarrow> 'e) \<Rightarrow> 'e list" where
  "parallel_for_1 n0 f = map f [0..<n0]"

definition parallel_for_2 :: "nat \<Rightarrow> nat \<Rightarrow> (nat \<Rightarrow> nat \<Rightarrow> 'e) \<Rightarrow> 'e list list" where
  "parallel_for_2 n0 n1 f = map (\<lambda>i. map (\<lambda>j. f i j) [0..<n1]) [0..<n0]"

definition parallel_for_3 ::
  "nat \<Rightarrow> nat \<Rightarrow> nat \<Rightarrow> (nat \<Rightarrow> nat \<Rightarrow> nat \<Rightarrow> 'e) \<Rightarrow> 'e list list list" where
  "parallel_for_3 n0 n1 n2 f =
     map (\<lambda>i. map (\<lambda>j. map (\<lambda>k. f i j k) [0..<n2]) [0..<n1]) [0..<n0]"

text \<open>\<open>Kokkos::max(a, b)\<close>, which returns \<open>a < b ? b : a\<close>.\<close>

definition kokkos_max :: "'a::ord \<Rightarrow> 'a \<Rightarrow> 'a" where
  "kokkos_max x y = (if x < y then y else x)"

text \<open>\<open>point_t{}\<close>: the value-initialised point, all coordinates zero.\<close>

definition origin :: "'a template_args \<Rightarrow> ('a::zero) point" where
  "origin T = replicate (dimension T) 0"

text \<open>
  \<open>static_assert(c, msg)\<close>: the compiler rejects an instantiation whose condition is
  false, so no call of it ever runs.  The embedding has no compile time; a false
  condition ends the call at its head, with the message of the assertion.
\<close>

definition static_assert :: "bool \<Rightarrow> string \<Rightarrow> error option" where
  "static_assert c msg = (if c then None else Some (StaticAssertion msg))"

text \<open>
  Modelled from the spec: the macro \<open>KOKKOS_ASSERT\<close> is not defined in the
  repository.  A violated condition is the fatal precondition failure of the spec
  (sections 4.1 and 7): the call ends there with an error.  A build in which the macro
  expands to nothing is not modelled.
\<close>

definition KOKKOS_ASSERT :: "bool \<Rightarrow> string \<Rightarrow> error option" where
  "KOKKOS_ASSERT c msg = (if c then None else Some (KokkosAssertion msg))"

subsection \<open>The six stages\<close>

definition source_ref_target_fill ::
  "('a::{zero,minus}) template_args \<Rightarrow> nat \<Rightarrow> nat \<Rightarrow> 'a memory \<Rightarrow> 'a memory" where
  "source_ref_target_fill T num_targets num_neighbors s =
     s\<lparr>source_ref_target :=
         parallel_for_2 num_targets num_neighbors (\<lambda>i j.
           let src = view_at (source_points s) i j;
               tgt = acc_get (target_points s) i
           in for_loop 0 (dimension T) (\<lambda>k t. t[k := src ! k - tgt ! k]) (origin T)),
       dispatched := dispatched s @
         [''ArborX::MovingLeastSquaresCoefficients::source_ref_target_fill'']\<rparr>"

definition radii_computation ::
  "('a::{zero,ord,times,inverse,numeral}) template_args \<Rightarrow> nat \<Rightarrow> nat \<Rightarrow> 'a memory \<Rightarrow> 'a memory" where
  "radii_computation T num_targets num_neighbors s =
     s\<lparr>radii :=
         parallel_for_1 num_targets (\<lambda>i.
           let radius = for_loop 0 num_neighbors (\<lambda>j radius.
                 let norm = distance T (source_ref_target s ! i ! j) (origin T)
                 in kokkos_max radius norm) (epsilon T)
           in (11 / 10) * radius),
       dispatched := dispatched s @
         [''ArborX::MovingLeastSquaresCoefficients::radii_computation'']\<rparr>"

definition phi_computation ::
  "('a::{zero,inverse}) template_args \<Rightarrow> nat \<Rightarrow> nat \<Rightarrow> 'a memory \<Rightarrow> 'a memory" where
  "phi_computation T num_targets num_neighbors s =
     s\<lparr>phi :=
         parallel_for_2 num_targets num_neighbors (\<lambda>i j.
           let norm = distance T (source_ref_target s ! i ! j) (origin T)
           in evaluate T (norm / radii s ! i)),
       dispatched := dispatched s @
         [''ArborX::MovingLeastSquaresCoefficients::phi_computation'']\<rparr>"

definition vandermonde_computation ::
  "'a template_args \<Rightarrow> nat \<Rightarrow> nat \<Rightarrow> 'a memory \<Rightarrow> 'a memory" where
  "vandermonde_computation T num_targets num_neighbors s =
     s\<lparr>vandermonde :=
         parallel_for_2 num_targets num_neighbors (\<lambda>i j.
           let basis = evaluatePolynomialBasis T (source_ref_target s ! i ! j)
           in map (\<lambda>k. basis ! k) [0..<poly_size T]),
       dispatched := dispatched s @
         [''ArborX::MovingLeastSquaresCoefficients::vandermonde_computation'']\<rparr>"

definition moment_computation ::
  "('a::{zero,plus,times}) template_args \<Rightarrow> nat \<Rightarrow> nat \<Rightarrow> 'a memory \<Rightarrow> 'a memory" where
  "moment_computation T num_targets num_neighbors s =
     s\<lparr>moment :=
         parallel_for_3 num_targets (poly_size T) (poly_size T) (\<lambda>i j k.
           for_loop 0 num_neighbors (\<lambda>l tmp.
             tmp + vandermonde s ! i ! l ! j * vandermonde s ! i ! l ! k * phi s ! i ! l) 0),
       dispatched := dispatched s @
         [''ArborX::MovingLeastSquaresCoefficients::moment_computation'']\<rparr>"

definition pseudo_inverse_svd :: "'a template_args \<Rightarrow> 'a memory \<Rightarrow> 'a memory" where
  "pseudo_inverse_svd T s = s\<lparr>moment := symmetricPseudoInverseSVD T (moment s)\<rparr>"

definition coefficients_computation ::
  "('a::{zero,plus,times}) template_args \<Rightarrow> nat \<Rightarrow> nat \<Rightarrow> 'a memory \<Rightarrow> 'a memory" where
  "coefficients_computation T num_targets num_neighbors s =
     s\<lparr>coeffs :=
         parallel_for_2 num_targets num_neighbors (\<lambda>i j.
           for_loop 0 (poly_size T) (\<lambda>k tmp.
             tmp + moment s ! i ! 0 ! k * vandermonde s ! i ! j ! k * phi s ! i ! j) 0),
       dispatched := dispatched s @
         [''ArborX::MovingLeastSquaresCoefficients::coefficients_computation'']\<rparr>"

subsection \<open>The function\<close>

text \<open>
  The checks at the head of the function, in the order of the source; the first one
  violated ends the call.  The remaining static assertions of the source (the source
  points are a rank-2 view, the elements are points with valid traits) hold by the
  types of the embedding.
\<close>

definition preconditions :: "'a template_args \<Rightarrow> 'a memory \<Rightarrow> error option" where
  "preconditions T s =
     (case static_assert (memory_accessible T)
             ''Memory space must be accessible from the execution space'' of
        Some e \<Rightarrow> Some e
      | None \<Rightarrow>
     (case static_assert (source_accessible T)
             ''source points must be accessible from the execution space'' of
        Some e \<Rightarrow> Some e
      | None \<Rightarrow>
     (case static_assert (target_accessible T)
             ''target points must be accessible from the execution space'' of
        Some e \<Rightarrow> Some e
      | None \<Rightarrow>
     (case static_assert (dimension T = target_dimension T)
             ''target and source points must have the same dimension'' of
        Some e \<Rightarrow> Some e
      | None \<Rightarrow>
        KOKKOS_ASSERT (acc_size (target_points s) = extent0 (source_points s))
          ''num_targets == source_points.extent_int(0)''))))"

text \<open>
  The call returns the coefficient view, or ends with an error; the second component
  is the memory it leaves behind.
\<close>

definition movingLeastSquaresCoefficients ::
  "('a::{zero,plus,minus,times,inverse,ord,numeral}) template_args \<Rightarrow> 'a memory
     \<Rightarrow> (error + 'a list list) \<times> 'a memory" where
  "movingLeastSquaresCoefficients T s =
     (case preconditions T s of
        Some e \<Rightarrow> (Inl e, s)
      | None \<Rightarrow>
        let num_targets = acc_size (target_points s);
            num_neighbors = extent1 (source_points s);
            s1 = source_ref_target_fill T num_targets num_neighbors s;
            s2 = radii_computation T num_targets num_neighbors s1;
            s3 = phi_computation T num_targets num_neighbors s2;
            s4 = vandermonde_computation T num_targets num_neighbors s3;
            s5 = moment_computation T num_targets num_neighbors s4;
            s6 = pseudo_inverse_svd T s5;
            s7 = coefficients_computation T num_targets num_neighbors s6
        in (Inr (coeffs s7), s7))"

subsection \<open>The sum of the specification\<close>

text \<open>
  The sum \<open>f 0 + f 1 + \<dots> + f (n - 1)\<close> as the specification writes it, accumulated
  from \<open>0\<close> in the order of the index, in the scalar type's own addition.
\<close>

primrec serial_sum :: "(nat \<Rightarrow> 'a) \<Rightarrow> nat \<Rightarrow> 'a::{zero,plus}" where
  "serial_sum f 0 = 0"
| "serial_sum f (Suc n) = serial_sum f n + f n"

subsection \<open>Concrete calls\<close>

text \<open>
  One instantiation over the rationals, used to run the function: one dimension,
  degree one (basis \<open>1, x\<close>), the kernel \<open>(1 - min \<bar>r\<bar> 1)\<^sup>2\<close>, and the exact
  pseudo-inverse of a symmetric two-by-two matrix.
\<close>

definition pinv_2x2 :: "rat list list \<Rightarrow> rat list list" where
  "pinv_2x2 m =
     (let a = m ! 0 ! 0; b = m ! 0 ! 1; d = m ! 1 ! 1;
          det = a * d - b * b; tr = a + d
      in if det \<noteq> 0 then [[d / det, - b / det], [- b / det, a / det]]
         else if tr \<noteq> 0
           then [[a / (tr * tr), b / (tr * tr)], [b / (tr * tr), d / (tr * tr)]]
         else [[0, 0], [0, 0]])"

definition scenario_A_args :: "rat template_args" where
  "scenario_A_args =
     \<lparr>epsilon = 1 / 4503599627370496,
      distance = (\<lambda>x y. \<bar>x ! 0 - y ! 0\<bar>),
      evaluate = (\<lambda>r. (1 - min \<bar>r\<bar> 1) * (1 - min \<bar>r\<bar> 1)),
      evaluatePolynomialBasis = (\<lambda>x. [1, x ! 0]),
      poly_size = 2,
      symmetricPseudoInverseSVD = map pinv_2x2,
      dimension = 1,
      target_dimension = 1,
      memory_accessible = True,
      source_accessible = True,
      target_accessible = True\<rparr>"

text \<open>Scenario A of the specification: a target at \<open>0\<close> with neighbours at \<open>-1\<close> and \<open>1\<close>.\<close>

definition scenario_A_memory :: "rat memory" where
  "scenario_A_memory =
     \<lparr>source_points = \<lparr>extent0 = 1, extent1 = 2, view_at = (\<lambda>i j. [[- 1], [1]] ! j)\<rparr>,
      target_points = \<lparr>acc_size = 1, acc_get = (\<lambda>i. [0])\<rparr>,
      source_ref_target = [], radii = [], phi = [], vandermonde = [], moment = [],
      coeffs = [], dispatched = []\<rparr>"

text \<open>A target at \<open>2\<close> with neighbours at \<open>3\<close> and \<open>5\<close>.\<close>

definition skew_memory :: "rat memory" where
  "skew_memory =
     \<lparr>source_points = \<lparr>extent0 = 1, extent1 = 2, view_at = (\<lambda>i j. [[3], [5]] ! j)\<rparr>,
      target_points = \<lparr>acc_size = 1, acc_get = (\<lambda>i. [2])\<rparr>,
      source_ref_target = [], radii = [], phi = [], vandermonde = [], moment = [],
      coeffs = [], dispatched = []\<rparr>"

text \<open>A target at \<open>2\<close> whose two neighbours both coincide with it.\<close>

definition collapsed_memory :: "rat memory" where
  "collapsed_memory =
     \<lparr>source_points = \<lparr>extent0 = 1, extent1 = 2, view_at = (\<lambda>i j. [2])\<rparr>,
      target_points = \<lparr>acc_size = 1, acc_get = (\<lambda>i. [2])\<rparr>,
      source_ref_target = [], radii = [], phi = [], vandermonde = [], moment = [],
      coeffs = [], dispatched = []\<rparr>"

text \<open>A neighbourhood table with two rows for a single target.\<close>

definition mismatched_memory :: "rat memory" where
  "mismatched_memory =
     \<lparr>source_points = \<lparr>extent0 = 2, extent1 = 2, view_at = (\<lambda>i j. [[3], [5]] ! j)\<rparr>,
      target_points = \<lparr>acc_size = 1, acc_get = (\<lambda>i. [2])\<rparr>,
      source_ref_target = [], radii = [], phi = [], vandermonde = [], moment = [],
      coeffs = [], dispatched = []\<rparr>"

subsection \<open>A scalar type with infinities\<close>

text \<open>
  A scalar type outside the ordered fields, to run the function where its arithmetic
  leaves the finite range: the rationals with the two infinities and NaN of IEEE
  arithmetic.  Comparisons with NaN are false.  A difference, a product or a quotient
  of finite values beyond \<open>largest\<close>, the largest finite single-precision value,
  overflows to an infinity.  Sums of finite values are exact (numerals ask for an
  associative addition); finite values are not rounded.
\<close>

datatype scalar = Fin rat | PInf | NInf | NaN

definition largest :: rat where
  "largest = 340282346638528859811704183484516925440"

definition overflow :: "rat \<Rightarrow> scalar" where
  "overflow q = (if largest < q then PInf else if q < - largest then NInf else Fin q)"

instantiation scalar :: "{zero,one,plus,uminus,minus,times,inverse,ord}"
begin

definition zero_scalar :: scalar where
  "zero_scalar = Fin 0"

definition one_scalar :: scalar where
  "one_scalar = Fin 1"

fun plus_scalar :: "scalar \<Rightarrow> scalar \<Rightarrow> scalar" where
  "plus_scalar NaN y = NaN"
| "plus_scalar x NaN = NaN"
| "plus_scalar PInf NInf = NaN"
| "plus_scalar NInf PInf = NaN"
| "plus_scalar PInf y = PInf"
| "plus_scalar x PInf = PInf"
| "plus_scalar NInf y = NInf"
| "plus_scalar x NInf = NInf"
| "plus_scalar (Fin a) (Fin b) = Fin (a + b)"

fun uminus_scalar :: "scalar \<Rightarrow> scalar" where
  "uminus_scalar (Fin a) = Fin (- a)"
| "uminus_scalar PInf = NInf"
| "uminus_scalar NInf = PInf"
| "uminus_scalar NaN = NaN"

fun minus_scalar :: "scalar \<Rightarrow> scalar \<Rightarrow> scalar" where
  "minus_scalar (Fin a) (Fin b) = overflow (a - b)"
| "minus_scalar x y = x + (- y)"

fun times_scalar :: "scalar \<Rightarrow> scalar \<Rightarrow> scalar" where
  "times_scalar NaN y = NaN"
| "times_scalar x NaN = NaN"
| "times_scalar (Fin a) (Fin b) = overflow (a * b)"
| "times_scalar (Fin a) PInf = (if a = 0 then NaN else if 0 < a then PInf else NInf)"
| "times_scalar (Fin a) NInf = (if a = 0 then NaN else if 0 < a then NInf else PInf)"
| "times_scalar PInf (Fin b) = (if b = 0 then NaN else if 0 < b then PInf else NInf)"
| "times_scalar NInf (Fin b) = (if b = 0 then NaN else if 0 < b then NInf else PInf)"
| "times_scalar PInf PInf = PInf"
| "times_scalar NInf NInf = PInf"
| "times_scalar PInf NInf = NInf"
| "times_scalar NInf PInf = NInf"

fun divide_scalar :: "scalar \<Rightarrow> scalar \<Rightarrow> scalar" where
  "divide_scalar NaN y = NaN"
| "divide_scalar x NaN = NaN"
| "divide_scalar (Fin a) (Fin b) =
     (if b = 0 then (if a = 0 then NaN else if 0 < a then PInf else NInf)
      else overflow (a / b))"
| "divide_scalar (Fin a) PInf = Fin 0"
| "divide_scalar (Fin a) NInf = Fin 0"
| "divide_scalar PInf (Fin b) = (if 0 \<le> b then PInf else NInf)"
| "divide_scalar NInf (Fin b) = (if 0 \<le> b then NInf else PInf)"
| "divide_scalar x y = NaN"

definition inverse_scalar :: "scalar \<Rightarrow> scalar" where
  "inverse_scalar x = divide (Fin 1) x"

fun less_scalar :: "scalar \<Rightarrow> scalar \<Rightarrow> bool" where
  "less_scalar NaN y = False"
| "less_scalar x NaN = False"
| "less_scalar (Fin a) (Fin b) = (a < b)"
| "less_scalar x PInf = (x \<noteq> PInf)"
| "less_scalar NInf y = (y \<noteq> NInf)"
| "less_scalar x y = False"

fun less_eq_scalar :: "scalar \<Rightarrow> scalar \<Rightarrow> bool" where
  "less_eq_scalar NaN y = False"
| "less_eq_scalar x NaN = False"
| "less_eq_scalar (Fin a) (Fin b) = (a \<le> b)"
| "less_eq_scalar x PInf = True"
| "less_eq_scalar NInf y = True"
| "less_eq_scalar x y = False"

instance ..

end

instance scalar :: semigroup_add
proof
  fix a b c :: scalar
  show "a + b + c = a + (b + c)"
    by (cases a; cases b; cases c) simp_all
qed

instance scalar :: numeral ..




section \<open>Loops and tables\<close>

lemma for_loop_foldl: "for_loop k n body s = foldl (\<lambda>s k. body k s) s [k..<n]"
proof (induction k n body s rule: for_loop.induct)
  case (1 k n body s)
  show ?case
  proof (cases "k < n")
    case True
    then show ?thesis
      using "1.IH" by (subst for_loop.simps) (simp add: upt_rec)
  next
    case False
    then show ?thesis by (subst for_loop.simps) simp
  qed
qed

lemma for_loop_0: "for_loop 0 0 body s = s"
  by (simp add: for_loop_foldl)

lemma for_loop_Suc: "for_loop 0 (Suc n) body s = body n (for_loop 0 n body s)"
  by (simp add: for_loop_foldl)

text \<open>An accumulating loop \<open>tmp = 0; for (k < n) tmp += f(k)\<close> computes the serial sum.\<close>

lemma for_loop_serial_sum: "for_loop 0 n (\<lambda>k tmp. tmp + f k) 0 = serial_sum f n"
  by (induction n) (simp_all add: for_loop_0 for_loop_Suc)

text \<open>Where addition is associative and commutative, the serial sum is the sum.\<close>

lemma serial_sum_eq_sum:
  fixes f :: "nat \<Rightarrow> 'a::comm_monoid_add"
  shows "serial_sum f n = (\<Sum>k<n. f k)"
  by (induction n) (simp_all add: add.commute)

lemma kokkos_max_eq_max: "kokkos_max x y = max x (y::'a::linorder)"
  by (auto simp: kokkos_max_def max_def)

text \<open>The radius loop computes the maximum of its start value and the values met.\<close>

lemma for_loop_max:
  fixes d :: "nat \<Rightarrow> 'a::linorder"
  shows "for_loop 0 n (\<lambda>j radius. kokkos_max radius (d j)) e = Max (insert e (d ` {..<n}))"
proof (induction n)
  case 0
  then show ?case by (simp add: for_loop_0)
next
  case (Suc n)
  have "Max (insert e (d ` {..<Suc n})) = Max (insert (d n) (insert e (d ` {..<n})))"
    by (simp add: lessThan_Suc insert_commute)
  also have "\<dots> = max (d n) (Max (insert e (d ` {..<n})))"
    by (rule Max_insert) simp_all
  finally show ?case
    using Suc by (simp add: for_loop_Suc kokkos_max_eq_max max.commute)
qed

text \<open>A loop that assigns slot \<open>k\<close> in its \<open>k\<close>-th round overwrites a prefix.\<close>

lemma for_loop_fill:
  "m \<le> length xs \<Longrightarrow> for_loop 0 m (\<lambda>k t. t[k := f k]) xs = map f [0..<m] @ drop m xs"
proof (induction m)
  case 0
  then show ?case by (simp add: for_loop_0)
next
  case (Suc m)
  then show ?case
    by (simp add: for_loop_Suc list_update_append upd_conv_take_nth_drop
        Cons_nth_drop_Suc drop_Suc)
qed

lemma nth_parallel_for_1: "i < n0 \<Longrightarrow> parallel_for_1 n0 f ! i = f i"
  by (simp add: parallel_for_1_def)

lemma nth_parallel_for_2: "i < n0 \<Longrightarrow> j < n1 \<Longrightarrow> parallel_for_2 n0 n1 f ! i ! j = f i j"
  by (simp add: parallel_for_2_def)

lemma nth_parallel_for_3:
  "i < n0 \<Longrightarrow> j < n1 \<Longrightarrow> k < n2 \<Longrightarrow> parallel_for_3 n0 n1 n2 f ! i ! j ! k = f i j k"
  by (simp add: parallel_for_3_def)

lemma shape_parallel_for_2:
  "length (parallel_for_2 n0 n1 f) = n0 \<and>
   (\<forall>row \<in> set (parallel_for_2 n0 n1 f). length row = n1)"
  by (auto simp: parallel_for_2_def)

section \<open>The memory after a call\<close>

lemmas stage_defs =
  source_ref_target_fill_def radii_computation_def phi_computation_def
  vandermonde_computation_def moment_computation_def pseudo_inverse_svd_def
  coefficients_computation_def

lemma preconditions_None_iff:
  "preconditions T s = None \<longleftrightarrow>
     memory_accessible T \<and> source_accessible T \<and> target_accessible T \<and>
     dimension T = target_dimension T \<and>
     acc_size (target_points s) = extent0 (source_points s)"
  by (auto simp: preconditions_def static_assert_def KOKKOS_ASSERT_def
      split: option.splits if_splits)

lemma success_preconditions:
  "fst (movingLeastSquaresCoefficients T s) = Inr c \<Longrightarrow> preconditions T s = None"
  by (simp add: movingLeastSquaresCoefficients_def split: option.splits)

lemma failure_preconditions:
  "preconditions T s = Some e \<Longrightarrow> movingLeastSquaresCoefficients T s = (Inl e, s)"
  by (simp add: movingLeastSquaresCoefficients_def)

lemma final_result:
  "preconditions T s = None \<Longrightarrow>
   fst (movingLeastSquaresCoefficients T s) =
     Inr (coeffs (snd (movingLeastSquaresCoefficients T s)))"
  by (simp add: movingLeastSquaresCoefficients_def Let_def)

text \<open>The call returns a coefficient view exactly when no check at its head fails.\<close>

lemma call_succeeds_iff:
  "(\<exists>c. fst (movingLeastSquaresCoefficients T s) = Inr c) \<longleftrightarrow> preconditions T s = None"
  using final_result success_preconditions by blast

lemma final_source_ref_target:
  "preconditions T s = None \<Longrightarrow>
   source_ref_target (snd (movingLeastSquaresCoefficients T s)) =
     parallel_for_2 (acc_size (target_points s)) (extent1 (source_points s)) (\<lambda>i j.
       for_loop 0 (dimension T)
         (\<lambda>k t. t[k := view_at (source_points s) i j ! k - acc_get (target_points s) i ! k])
         (origin T))"
  by (simp add: movingLeastSquaresCoefficients_def Let_def stage_defs)

lemma final_radii:
  "preconditions T s = None \<Longrightarrow>
   radii (snd (movingLeastSquaresCoefficients T s)) =
     parallel_for_1 (acc_size (target_points s)) (\<lambda>i.
       (11 / 10) * for_loop 0 (extent1 (source_points s)) (\<lambda>j radius.
          kokkos_max radius
            (distance T (source_ref_target (snd (movingLeastSquaresCoefficients T s)) ! i ! j)
               (origin T)))
          (epsilon T))"
  by (simp add: movingLeastSquaresCoefficients_def Let_def stage_defs)

lemma final_phi:
  "preconditions T s = None \<Longrightarrow>
   phi (snd (movingLeastSquaresCoefficients T s)) =
     parallel_for_2 (acc_size (target_points s)) (extent1 (source_points s)) (\<lambda>i j.
       evaluate T
         (distance T (source_ref_target (snd (movingLeastSquaresCoefficients T s)) ! i ! j)
            (origin T)
          / radii (snd (movingLeastSquaresCoefficients T s)) ! i))"
  by (simp add: movingLeastSquaresCoefficients_def Let_def stage_defs)

lemma final_vandermonde:
  "preconditions T s = None \<Longrightarrow>
   vandermonde (snd (movingLeastSquaresCoefficients T s)) =
     parallel_for_2 (acc_size (target_points s)) (extent1 (source_points s)) (\<lambda>i j.
       map (\<lambda>k. evaluatePolynomialBasis T
                  (source_ref_target (snd (movingLeastSquaresCoefficients T s)) ! i ! j) ! k)
         [0..<poly_size T])"
  by (simp add: movingLeastSquaresCoefficients_def Let_def stage_defs)

text \<open>The moment view ends as the pseudo-inverse of the matrix the moment stage
  assembles from the final Vandermonde and weight views.\<close>

lemma final_moment:
  "preconditions T s = None \<Longrightarrow>
   moment (snd (movingLeastSquaresCoefficients T s)) =
     symmetricPseudoInverseSVD T
       (moment (moment_computation T (acc_size (target_points s)) (extent1 (source_points s))
          (snd (movingLeastSquaresCoefficients T s))))"
  by (simp add: movingLeastSquaresCoefficients_def Let_def stage_defs)

lemma final_coeffs:
  "preconditions T s = None \<Longrightarrow>
   coeffs (snd (movingLeastSquaresCoefficients T s)) =
     parallel_for_2 (acc_size (target_points s)) (extent1 (source_points s)) (\<lambda>i j.
       for_loop 0 (poly_size T) (\<lambda>k tmp.
         tmp + moment (snd (movingLeastSquaresCoefficients T s)) ! i ! 0 ! k
               * vandermonde (snd (movingLeastSquaresCoefficients T s)) ! i ! j ! k
               * phi (snd (movingLeastSquaresCoefficients T s)) ! i ! j) 0)"
  by (simp add: movingLeastSquaresCoefficients_def Let_def stage_defs)

lemma inputs_kept:
  "source_points (snd (movingLeastSquaresCoefficients T s)) = source_points s \<and>
   target_points (snd (movingLeastSquaresCoefficients T s)) = target_points s"
  by (simp add: movingLeastSquaresCoefficients_def Let_def stage_defs split: option.splits)

section \<open>The concrete calls, evaluated\<close>

lemma scenario_A_result:
  "fst (movingLeastSquaresCoefficients scenario_A_args scenario_A_memory) = Inr [[1 / 2, 1 / 2]]"
  by code_simp

lemma skew_result:
  "fst (movingLeastSquaresCoefficients scenario_A_args skew_memory) = Inr [[3 / 2, - (1 / 2)]]"
  by code_simp

lemma collapsed_result:
  "fst (movingLeastSquaresCoefficients scenario_A_args collapsed_memory) = Inr [[1 / 2, 1 / 2]]"
  by code_simp

lemma scenario_epsilon_pos: "0 < epsilon scenario_A_args"
  by (simp add: scenario_A_args_def)

lemma scenario_A_extents:
  "acc_size (target_points scenario_A_memory) = 1 \<and>
   extent1 (source_points scenario_A_memory) = 2"
  by (simp add: scenario_A_memory_def)

lemma skew_extents:
  "acc_size (target_points skew_memory) = 1 \<and> extent1 (source_points skew_memory) = 2"
  by (simp add: skew_memory_def)

lemma collapsed_extents:
  "acc_size (target_points collapsed_memory) = 1 \<and>
   extent1 (source_points collapsed_memory) = 2"
  by (simp add: collapsed_memory_def)

section \<open>Entries as unordered sums\<close>

text \<open>In a semiring the two accumulating loops compute the sums of their terms.\<close>

lemma final_coeff_entry:
  fixes T :: "('a::{semiring_0,minus,inverse,ord,numeral}) template_args"
  assumes pre: "preconditions T s = None"
    and i: "i < acc_size (target_points s)"
    and j: "j < extent1 (source_points s)"
  shows "coeffs (snd (movingLeastSquaresCoefficients T s)) ! i ! j =
           (\<Sum>k<poly_size T. moment (snd (movingLeastSquaresCoefficients T s)) ! i ! 0 ! k
                          * vandermonde (snd (movingLeastSquaresCoefficients T s)) ! i ! j ! k
                          * phi (snd (movingLeastSquaresCoefficients T s)) ! i ! j)"
  using i j
  by (subst final_coeffs [OF pre])
     (simp add: nth_parallel_for_2 for_loop_serial_sum serial_sum_eq_sum)

lemma moment_entry_sum:
  fixes T :: "('a::semiring_0) template_args"
  assumes "i < num_targets" and "j < poly_size T" and "k < poly_size T"
  shows "moment (moment_computation T num_targets num_neighbors s) ! i ! j ! k =
           (\<Sum>l<num_neighbors. vandermonde s ! i ! l ! j * vandermonde s ! i ! l ! k * phi s ! i ! l)"
  using assms
  by (simp add: moment_computation_def nth_parallel_for_3 for_loop_serial_sum serial_sum_eq_sum)

text \<open>A maximum whose other members do not exceed the floor is the floor.\<close>

lemma Max_floor:
  fixes e :: "'a::linorder"
  assumes "finite S" and "\<And>y. y \<in> S \<Longrightarrow> y \<le> e"
  shows "Max (insert e S) = e"
  using assms by (intro Max_eqI) auto

section \<open>The claims\<close>

text \<open>
  C2.  For every target \<open>i\<close> of a call that returns, the radius stage stores
  \<open>1.1\<close> times the maximum of machine epsilon and the distances of the neighbours'
  relative coordinates to the origin: the floor at epsilon is the start value of the
  maximum, taken before the inflation by \<open>1.1\<close>.  With a positive epsilon the stored
  radius is strictly positive, hence not zero, so the division of the weight stage
  never divides by zero.  The scalar type is any linearly ordered field.
\<close>

theorem radius_inflated_floored_maximum:
  fixes T :: "('a::linordered_field) template_args"
  assumes ok: "fst (movingLeastSquaresCoefficients T s) = Inr c"
    and eps: "0 < epsilon T"
    and i: "i < acc_size (target_points s)"
  shows "radii (snd (movingLeastSquaresCoefficients T s)) ! i =
           (11 / 10) * Max (insert (epsilon T)
             ((\<lambda>j. distance T
                      (source_ref_target (snd (movingLeastSquaresCoefficients T s)) ! i ! j)
                      (origin T)) ` {..<extent1 (source_points s)}))
         \<and> 0 < radii (snd (movingLeastSquaresCoefficients T s)) ! i
         \<and> radii (snd (movingLeastSquaresCoefficients T s)) ! i \<noteq> 0"
proof -
  let ?s' = "snd (movingLeastSquaresCoefficients T s)"
  let ?D = "(\<lambda>j. distance T (source_ref_target ?s' ! i ! j) (origin T))
              ` {..<extent1 (source_points s)}"
  have pre: "preconditions T s = None"
    using ok by (rule success_preconditions)
  have r: "radii ?s' ! i = (11 / 10) * Max (insert (epsilon T) ?D)"
    using i by (simp add: final_radii [OF pre] nth_parallel_for_1 for_loop_max)
  have "epsilon T \<le> Max (insert (epsilon T) ?D)"
    by (rule Max_ge) simp_all
  with eps have "0 < Max (insert (epsilon T) ?D)"
    by (rule less_le_trans)
  then have "0 < radii ?s' ! i"
    by (simp add: r)
  with r show ?thesis by simp
qed

theorem radius_inflated_floored_maximum_witness:
  "fst (movingLeastSquaresCoefficients scenario_A_args collapsed_memory) = Inr [[1 / 2, 1 / 2]]
   \<and> 0 < epsilon scenario_A_args
   \<and> (0::nat) < acc_size (target_points collapsed_memory)
   \<and> radii (snd (movingLeastSquaresCoefficients scenario_A_args collapsed_memory)) ! 0 =
       (11 / 10) * Max (insert (epsilon scenario_A_args)
         ((\<lambda>j. distance scenario_A_args
             (source_ref_target
                (snd (movingLeastSquaresCoefficients scenario_A_args collapsed_memory)) ! 0 ! j)
             (origin scenario_A_args)) ` {..<extent1 (source_points collapsed_memory)}))
   \<and> radii (snd (movingLeastSquaresCoefficients scenario_A_args collapsed_memory)) ! 0 =
       (11 / 10) * epsilon scenario_A_args
   \<and> 0 < radii (snd (movingLeastSquaresCoefficients scenario_A_args collapsed_memory)) ! 0"
proof -
  have h3: "0 < acc_size (target_points collapsed_memory)"
    by (simp add: collapsed_extents)
  have v: "radii (snd (movingLeastSquaresCoefficients scenario_A_args collapsed_memory)) ! 0 =
      (11 / 10) * epsilon scenario_A_args"
    by code_simp
  from radius_inflated_floored_maximum [OF collapsed_result scenario_epsilon_pos h3]
    collapsed_result scenario_epsilon_pos h3 v
  show ?thesis by blast
qed

text \<open>
  C3.  For every target \<open>i\<close> and neighbour \<open>j\<close> of a call that returns, the returned
  coefficient is the sum over the basis indices \<open>k\<close> of
  \<open>moment[i][0][k] * vandermonde[i][j][k] * phi[i][j]\<close>, accumulated in index order,
  where the moment view holds the pseudo-inverse of the assembled moment matrix: row
  \<open>0\<close> of the inverse is the row read.  In a semiring the weight can be taken out of
  the sum, so it multiplies the whole sum.
\<close>

theorem coefficient_is_row0_weighted_sum:
  fixes T :: "('a::{semiring_0,minus,inverse,ord,numeral}) template_args"
  assumes ok: "fst (movingLeastSquaresCoefficients T s) = Inr c"
    and i: "i < acc_size (target_points s)"
    and j: "j < extent1 (source_points s)"
  shows "c ! i ! j =
           serial_sum (\<lambda>k. moment (snd (movingLeastSquaresCoefficients T s)) ! i ! 0 ! k
                          * vandermonde (snd (movingLeastSquaresCoefficients T s)) ! i ! j ! k
                          * phi (snd (movingLeastSquaresCoefficients T s)) ! i ! j)
             (poly_size T)
         \<and> c ! i ! j =
           (\<Sum>k<poly_size T. moment (snd (movingLeastSquaresCoefficients T s)) ! i ! 0 ! k
                          * vandermonde (snd (movingLeastSquaresCoefficients T s)) ! i ! j ! k)
           * phi (snd (movingLeastSquaresCoefficients T s)) ! i ! j
         \<and> moment (snd (movingLeastSquaresCoefficients T s)) =
             symmetricPseudoInverseSVD T
               (moment (moment_computation T (acc_size (target_points s))
                  (extent1 (source_points s)) (snd (movingLeastSquaresCoefficients T s))))"
proof -
  let ?s' = "snd (movingLeastSquaresCoefficients T s)"
  have pre: "preconditions T s = None"
    using ok by (rule success_preconditions)
  have c: "c = coeffs ?s'"
    using ok final_result [OF pre] by simp
  have 1: "c ! i ! j =
      serial_sum (\<lambda>k. moment ?s' ! i ! 0 ! k * vandermonde ?s' ! i ! j ! k * phi ?s' ! i ! j)
        (poly_size T)"
    unfolding c using i j
    by (subst final_coeffs [OF pre]) (simp add: nth_parallel_for_2 for_loop_serial_sum)
  have 2: "serial_sum (\<lambda>k. moment ?s' ! i ! 0 ! k * vandermonde ?s' ! i ! j ! k * phi ?s' ! i ! j)
        (poly_size T) =
      (\<Sum>k<poly_size T. moment ?s' ! i ! 0 ! k * vandermonde ?s' ! i ! j ! k) * phi ?s' ! i ! j"
    by (simp add: serial_sum_eq_sum sum_distrib_right)
  from 1 2 final_moment [OF pre] show ?thesis by simp
qed

theorem coefficient_is_row0_weighted_sum_witness:
  "fst (movingLeastSquaresCoefficients scenario_A_args skew_memory) = Inr [[3 / 2, - (1 / 2)]]
   \<and> (0::nat) < acc_size (target_points skew_memory)
   \<and> (1::nat) < extent1 (source_points skew_memory)
   \<and> [[3 / 2, - (1 / 2)]] ! 0 ! 1 =
       serial_sum
         (\<lambda>k. moment (snd (movingLeastSquaresCoefficients scenario_A_args skew_memory)) ! 0 ! 0 ! k
             * vandermonde (snd (movingLeastSquaresCoefficients scenario_A_args skew_memory)) ! 0 ! 1 ! k
             * phi (snd (movingLeastSquaresCoefficients scenario_A_args skew_memory)) ! 0 ! 1)
         (poly_size scenario_A_args)
   \<and> [[3 / 2, - (1 / 2)]] ! 0 ! 1 =
       (\<Sum>k<poly_size scenario_A_args.
           moment (snd (movingLeastSquaresCoefficients scenario_A_args skew_memory)) ! 0 ! 0 ! k
           * vandermonde (snd (movingLeastSquaresCoefficients scenario_A_args skew_memory)) ! 0 ! 1 ! k)
       * phi (snd (movingLeastSquaresCoefficients scenario_A_args skew_memory)) ! 0 ! 1
   \<and> moment (snd (movingLeastSquaresCoefficients scenario_A_args skew_memory)) ! 0 ! 0 =
       [36905 / 1058, - (16819 / 529)]
   \<and> vandermonde (snd (movingLeastSquaresCoefficients scenario_A_args skew_memory)) ! 0 ! 1 =
       [1, 3]
   \<and> phi (snd (movingLeastSquaresCoefficients scenario_A_args skew_memory)) ! 0 ! 1 = 1 / 121"
proof -
  have h2: "0 < acc_size (target_points skew_memory)"
    by (simp add: skew_extents)
  have h3: "1 < extent1 (source_points skew_memory)"
    by (simp add: skew_extents)
  have v1: "moment (snd (movingLeastSquaresCoefficients scenario_A_args skew_memory)) ! 0 ! 0 =
       [36905 / 1058, - (16819 / 529)]"
    by code_simp
  have v2: "vandermonde (snd (movingLeastSquaresCoefficients scenario_A_args skew_memory)) ! 0 ! 1 =
       [1, 3]"
    by code_simp
  have v3: "phi (snd (movingLeastSquaresCoefficients scenario_A_args skew_memory)) ! 0 ! 1 = 1 / 121"
    by code_simp
  from coefficient_is_row0_weighted_sum [OF skew_result h2 h3] skew_result h2 h3 v1 v2 v3
  show ?thesis by blast
qed

text \<open>
  C4.  For every target \<open>i\<close> and basis indices \<open>j\<close>, \<open>k\<close>, the entry the moment stage
  writes is the sum over the neighbours \<open>l\<close> of
  \<open>vandermonde[i][l][j] * vandermonde[i][l][k] * phi[i][l]\<close>, accumulated serially from
  \<open>0\<close> in the order of \<open>l\<close> in the scalar type, whatever that type is.  (By
  \<open>serial_sum_eq_sum\<close> this is the unordered sum where addition is associative and
  commutative.)
\<close>

theorem moment_entry_is_serial_sum:
  fixes T :: "('a::{zero,plus,times}) template_args"
  assumes "i < num_targets" and "j < poly_size T" and "k < poly_size T"
  shows "moment (moment_computation T num_targets num_neighbors s) ! i ! j ! k =
           serial_sum (\<lambda>l. vandermonde s ! i ! l ! j * vandermonde s ! i ! l ! k * phi s ! i ! l)
             num_neighbors"
  using assms by (simp add: moment_computation_def nth_parallel_for_3 for_loop_serial_sum)

theorem moment_entry_is_serial_sum_witness:
  "(0::nat) < 1 \<and> 1 < poly_size scenario_A_args
   \<and> moment (moment_computation scenario_A_args 1 2
         (snd (movingLeastSquaresCoefficients scenario_A_args skew_memory))) ! 0 ! 1 ! 1
     = serial_sum
         (\<lambda>l. vandermonde (snd (movingLeastSquaresCoefficients scenario_A_args skew_memory)) ! 0 ! l ! 1
             * vandermonde (snd (movingLeastSquaresCoefficients scenario_A_args skew_memory)) ! 0 ! l ! 1
             * phi (snd (movingLeastSquaresCoefficients scenario_A_args skew_memory)) ! 0 ! l)
         2
   \<and> moment (moment_computation scenario_A_args 1 2
         (snd (movingLeastSquaresCoefficients scenario_A_args skew_memory))) ! 0 ! 1 ! 1
     = 610 / 1089"
proof -
  have h1: "(0::nat) < 1" by simp
  have h2: "1 < poly_size scenario_A_args" by (simp add: scenario_A_args_def)
  have v: "moment (moment_computation scenario_A_args 1 2
         (snd (movingLeastSquaresCoefficients scenario_A_args skew_memory))) ! 0 ! 1 ! 1
     = 610 / 1089"
    by code_simp
  from moment_entry_is_serial_sum [where T = scenario_A_args and i = 0 and j = 1 and k = 1
      and num_targets = 1 and num_neighbors = 2, OF h1 h2 h2] h1 h2 v
  show ?thesis by blast
qed

text \<open>
  C5.  For every target \<open>i\<close> and basis indices \<open>j\<close>, \<open>k\<close>, the entries \<open>[i][j][k]\<close> and
  \<open>[i][k][j]\<close> the moment stage writes are the same value.  The only law used is
  that the scalar multiplication commutes: both entries are the same accumulation over
  the neighbours, in the same order, of terms that differ in the order of the first
  two factors only.  Neither associativity nor distributivity is needed, so the
  equality is exact in every scalar type whose multiplication commutes.
\<close>

theorem moment_symmetric:
  fixes T :: "('a::{zero,plus,times}) template_args"
  assumes comm: "\<And>x y :: 'a. x * y = y * x"
    and "i < num_targets" and "j < poly_size T" and "k < poly_size T"
  shows "moment (moment_computation T num_targets num_neighbors s) ! i ! j ! k =
         moment (moment_computation T num_targets num_neighbors s) ! i ! k ! j"
proof -
  have "vandermonde s ! i ! l ! j * vandermonde s ! i ! l ! k =
        vandermonde s ! i ! l ! k * vandermonde s ! i ! l ! j" for l
    by (rule comm)
  then show ?thesis
    using assms(2-4) by (simp add: moment_computation_def nth_parallel_for_3)
qed

theorem moment_symmetric_witness:
  "(\<forall>x y :: rat. x * y = y * x)
   \<and> (0::nat) < 1 \<and> 0 < poly_size scenario_A_args \<and> 1 < poly_size scenario_A_args
   \<and> moment (moment_computation scenario_A_args 1 2
         (snd (movingLeastSquaresCoefficients scenario_A_args skew_memory))) ! 0 ! 0 ! 1
     = moment (moment_computation scenario_A_args 1 2
         (snd (movingLeastSquaresCoefficients scenario_A_args skew_memory))) ! 0 ! 1 ! 0
   \<and> moment (moment_computation scenario_A_args 1 2
         (snd (movingLeastSquaresCoefficients scenario_A_args skew_memory))) ! 0 ! 0 ! 1
     = 556 / 1089"
proof -
  have c: "x * y = y * x" for x y :: rat
    by (rule mult.commute)
  have h1: "(0::nat) < 1" by simp
  have h2: "0 < poly_size scenario_A_args" by (simp add: scenario_A_args_def)
  have h3: "1 < poly_size scenario_A_args" by (simp add: scenario_A_args_def)
  have v: "moment (moment_computation scenario_A_args 1 2
         (snd (movingLeastSquaresCoefficients scenario_A_args skew_memory))) ! 0 ! 0 ! 1
     = 556 / 1089"
    by code_simp
  from moment_symmetric [where T = scenario_A_args and i = 0 and j = 0 and k = 1
      and num_targets = 1 and num_neighbors = 2, OF c h1 h2 h3] c h1 h2 h3 v
  show ?thesis by blast
qed




text \<open>
  C7.  Whenever the checks at the head of the function pass, the call returns (no
  stage can fail), and for every target \<open>i\<close> and neighbour \<open>j\<close> the weight is the
  kernel at the distance of the relative coordinate to the origin divided by the
  radius of the target, where the relative coordinate has \<open>dimension\<close> components, the
  \<open>d\<close>-th being the source's minus the target's.  The weight of \<open>(i, j)\<close> reads the
  relative coordinate of \<open>(i, j)\<close> and the radius of \<open>i\<close> only.  The scalar type is
  arbitrary.
\<close>

theorem weight_is_kernel_of_normalized_distance:
  fixes T :: "('a::{zero,plus,minus,times,inverse,ord,numeral}) template_args"
  assumes pre: "preconditions T s = None"
    and i: "i < acc_size (target_points s)"
    and j: "j < extent1 (source_points s)"
  shows "(\<exists>c. fst (movingLeastSquaresCoefficients T s) = Inr c)
         \<and> phi (snd (movingLeastSquaresCoefficients T s)) ! i ! j =
             evaluate T
               (distance T (source_ref_target (snd (movingLeastSquaresCoefficients T s)) ! i ! j)
                  (origin T)
                / radii (snd (movingLeastSquaresCoefficients T s)) ! i)
         \<and> length (source_ref_target (snd (movingLeastSquaresCoefficients T s)) ! i ! j)
             = dimension T
         \<and> (\<forall>d < dimension T.
               source_ref_target (snd (movingLeastSquaresCoefficients T s)) ! i ! j ! d =
                 view_at (source_points s) i j ! d - acc_get (target_points s) i ! d)"
proof -
  have "\<exists>c. fst (movingLeastSquaresCoefficients T s) = Inr c"
    using final_result [OF pre] by blast
  moreover have "phi (snd (movingLeastSquaresCoefficients T s)) ! i ! j =
      evaluate T
        (distance T (source_ref_target (snd (movingLeastSquaresCoefficients T s)) ! i ! j)
           (origin T)
         / radii (snd (movingLeastSquaresCoefficients T s)) ! i)"
    using i j by (subst final_phi [OF pre]) (simp add: nth_parallel_for_2)
  moreover have "length (source_ref_target (snd (movingLeastSquaresCoefficients T s)) ! i ! j)
      = dimension T"
    using i j
    by (simp add: final_source_ref_target [OF pre] nth_parallel_for_2 origin_def for_loop_fill)
  moreover have "\<forall>d < dimension T.
      source_ref_target (snd (movingLeastSquaresCoefficients T s)) ! i ! j ! d =
        view_at (source_points s) i j ! d - acc_get (target_points s) i ! d"
    using i j
    by (simp add: final_source_ref_target [OF pre] nth_parallel_for_2 origin_def for_loop_fill)
  ultimately show ?thesis by blast
qed

theorem weight_is_kernel_of_normalized_distance_witness:
  "preconditions scenario_A_args skew_memory = None
   \<and> (0::nat) < acc_size (target_points skew_memory)
   \<and> (1::nat) < extent1 (source_points skew_memory)
   \<and> (\<exists>c. fst (movingLeastSquaresCoefficients scenario_A_args skew_memory) = Inr c)
   \<and> phi (snd (movingLeastSquaresCoefficients scenario_A_args skew_memory)) ! 0 ! 1 =
       evaluate scenario_A_args
         (distance scenario_A_args
            (source_ref_target (snd (movingLeastSquaresCoefficients scenario_A_args skew_memory)) ! 0 ! 1)
            (origin scenario_A_args)
          / radii (snd (movingLeastSquaresCoefficients scenario_A_args skew_memory)) ! 0)
   \<and> phi (snd (movingLeastSquaresCoefficients scenario_A_args skew_memory)) ! 0 ! 1 = 1 / 121
   \<and> source_ref_target (snd (movingLeastSquaresCoefficients scenario_A_args skew_memory)) ! 0 ! 1 ! 0 =
       view_at (source_points skew_memory) 0 1 ! 0 - acc_get (target_points skew_memory) 0 ! 0
   \<and> source_ref_target (snd (movingLeastSquaresCoefficients scenario_A_args skew_memory)) ! 0 ! 1 =
       [3]"
proof -
  have h1: "preconditions scenario_A_args skew_memory = None"
    using skew_result by (rule success_preconditions)
  have h2: "0 < acc_size (target_points skew_memory)"
    by (simp add: skew_extents)
  have h3: "1 < extent1 (source_points skew_memory)"
    by (simp add: skew_extents)
  have d: "0 < dimension scenario_A_args"
    by (simp add: scenario_A_args_def)
  have v1: "phi (snd (movingLeastSquaresCoefficients scenario_A_args skew_memory)) ! 0 ! 1 = 1 / 121"
    by code_simp
  have v2: "source_ref_target (snd (movingLeastSquaresCoefficients scenario_A_args skew_memory)) ! 0 ! 1 =
       [3]"
    by code_simp
  from weight_is_kernel_of_normalized_distance [OF h1 h2 h3] h1 h2 h3 d v1 v2
  show ?thesis by blast
qed

text \<open>
  C8.  If the outer extent of the neighbourhood table differs from the number of
  targets, or the source and target point dimensions differ, or one of the three
  accessibility conditions fails, the call ends with an error and leaves the memory
  exactly as it found it: no kernel is dispatched, no view is written, no coefficient
  is produced.  The scalar type is arbitrary.
\<close>

theorem precondition_violation_aborts_before_dispatch:
  fixes T :: "('a::{zero,plus,minus,times,inverse,ord,numeral}) template_args"
  assumes "extent0 (source_points s) \<noteq> acc_size (target_points s)
           \<or> dimension T \<noteq> target_dimension T
           \<or> \<not> memory_accessible T \<or> \<not> source_accessible T \<or> \<not> target_accessible T"
  shows "(\<exists>e. fst (movingLeastSquaresCoefficients T s) = Inl e)
         \<and> snd (movingLeastSquaresCoefficients T s) = s
         \<and> dispatched (snd (movingLeastSquaresCoefficients T s)) = dispatched s"
proof -
  have "preconditions T s \<noteq> None"
    using assms by (auto simp: preconditions_None_iff)
  then obtain e where "preconditions T s = Some e"
    by blast
  then show ?thesis
    by (simp add: failure_preconditions)
qed

theorem precondition_violation_aborts_before_dispatch_witness:
  "extent0 (source_points mismatched_memory) \<noteq> acc_size (target_points mismatched_memory)
   \<and> (\<exists>e. fst (movingLeastSquaresCoefficients scenario_A_args mismatched_memory) = Inl e)
   \<and> snd (movingLeastSquaresCoefficients scenario_A_args mismatched_memory) = mismatched_memory
   \<and> dispatched (snd (movingLeastSquaresCoefficients scenario_A_args mismatched_memory)) = []"
proof -
  have h: "extent0 (source_points mismatched_memory) \<noteq> acc_size (target_points mismatched_memory)"
    by (simp add: mismatched_memory_def)
  have d: "dispatched mismatched_memory = []"
    by (simp add: mismatched_memory_def)
  from precondition_violation_aborts_before_dispatch
    [where T = scenario_A_args and s = mismatched_memory, OF disjI1, OF h] h d
  show ?thesis by simp
qed

text \<open>
  C10.  Every call, failing or not, leaves the source-points view and the target-points
  sequence as they were: the only components of the memory a stage assigns are the six
  views the function allocates and the dispatch log.  What a call returns is the
  coefficient view it allocated, with one row per target and one entry per neighbour
  in each row.  The scalar type is arbitrary.
\<close>

theorem inputs_unchanged_output_fresh:
  fixes T :: "('a::{zero,plus,minus,times,inverse,ord,numeral}) template_args"
  shows "source_points (snd (movingLeastSquaresCoefficients T s)) = source_points s
         \<and> target_points (snd (movingLeastSquaresCoefficients T s)) = target_points s
         \<and> (\<forall>c. fst (movingLeastSquaresCoefficients T s) = Inr c \<longrightarrow>
                c = coeffs (snd (movingLeastSquaresCoefficients T s))
                \<and> length c = acc_size (target_points s)
                \<and> (\<forall>row \<in> set c. length row = extent1 (source_points s)))"
proof (intro conjI allI impI)
  fix c
  assume ok: "fst (movingLeastSquaresCoefficients T s) = Inr c"
  then have pre: "preconditions T s = None"
    by (rule success_preconditions)
  show c: "c = coeffs (snd (movingLeastSquaresCoefficients T s))"
    using ok final_result [OF pre] by simp
  show "length c = acc_size (target_points s)"
    unfolding c by (subst final_coeffs [OF pre]) (simp add: shape_parallel_for_2)
  show "\<forall>row \<in> set c. length row = extent1 (source_points s)"
    unfolding c by (subst final_coeffs [OF pre]) (simp add: shape_parallel_for_2)
qed (simp_all add: inputs_kept)

theorem inputs_unchanged_output_fresh_witness:
  "source_points (snd (movingLeastSquaresCoefficients scenario_A_args scenario_A_memory))
     = source_points scenario_A_memory
   \<and> target_points (snd (movingLeastSquaresCoefficients scenario_A_args scenario_A_memory))
     = target_points scenario_A_memory
   \<and> fst (movingLeastSquaresCoefficients scenario_A_args scenario_A_memory) = Inr [[1 / 2, 1 / 2]]
   \<and> coeffs (snd (movingLeastSquaresCoefficients scenario_A_args scenario_A_memory))
     = [[1 / 2, 1 / 2]]
   \<and> length [[1 / 2, 1 / 2 :: rat]] = acc_size (target_points scenario_A_memory)
   \<and> length [1 / 2, 1 / 2 :: rat] = extent1 (source_points scenario_A_memory)"
proof -
  note t = inputs_unchanged_output_fresh [of scenario_A_args scenario_A_memory]
  from t have inputs:
    "source_points (snd (movingLeastSquaresCoefficients scenario_A_args scenario_A_memory))
       = source_points scenario_A_memory"
    "target_points (snd (movingLeastSquaresCoefficients scenario_A_args scenario_A_memory))
       = target_points scenario_A_memory"
    by blast+
  from t scenario_A_result have out:
    "[[1 / 2, 1 / 2]] = coeffs (snd (movingLeastSquaresCoefficients scenario_A_args scenario_A_memory))"
    "length [[1 / 2, 1 / 2 :: rat]] = acc_size (target_points scenario_A_memory)"
    "\<forall>row \<in> set [[1 / 2, 1 / 2 :: rat]]. length row = extent1 (source_points scenario_A_memory)"
    by blast+
  from out(3) have row: "length [1 / 2, 1 / 2 :: rat] = extent1 (source_points scenario_A_memory)"
    by simp
  from inputs out(1) [symmetric] out(2) row scenario_A_result show ?thesis
    by blast
qed

section \<open>Further properties\<close>

text \<open>
  The algebraic core of polynomial reproduction, in exact arithmetic (a commutative
  semiring).  Suppose that, for target \<open>i\<close>, row \<open>0\<close> of the pseudo-inverted moment
  matrix times column \<open>m\<close> of the assembled moment matrix is \<open>1\<close> for \<open>m = 0\<close> and
  \<open>0\<close> otherwise, as it is when the pseudo-inverse is an inverse.  Then the returned
  coefficients of the target, weighted with the \<open>m\<close>-th basis function at the relative
  coordinates of the neighbours, sum to \<open>1\<close> for \<open>m = 0\<close> and to \<open>0\<close> otherwise.
  In particular, where the basis function of index \<open>0\<close> is the constant \<open>1\<close>, the
  coefficients of the target sum to \<open>1\<close>.
\<close>

theorem basis_functions_reproduced:
  fixes T :: "('a::{comm_semiring_1,minus,inverse,ord}) template_args"
  assumes ok: "fst (movingLeastSquaresCoefficients T s) = Inr c"
    and i: "i < acc_size (target_points s)"
    and m: "m < poly_size T"
    and inv: "(\<Sum>k<poly_size T.
                 moment (snd (movingLeastSquaresCoefficients T s)) ! i ! 0 ! k
                 * moment (moment_computation T (acc_size (target_points s))
                     (extent1 (source_points s))
                     (snd (movingLeastSquaresCoefficients T s))) ! i ! k ! m)
              = (if m = 0 then 1 else 0)"
  shows "(\<Sum>j<extent1 (source_points s).
            c ! i ! j * vandermonde (snd (movingLeastSquaresCoefficients T s)) ! i ! j ! m)
         = (if m = 0 then 1 else 0)
         \<and> (m = 0 \<and> (\<forall>j<extent1 (source_points s).
                vandermonde (snd (movingLeastSquaresCoefficients T s)) ! i ! j ! 0 = 1)
              \<longrightarrow> (\<Sum>j<extent1 (source_points s). c ! i ! j) = 1)"
proof -
  let ?s' = "snd (movingLeastSquaresCoefficients T s)"
  let ?nn = "extent1 (source_points s)"
  let ?B = "\<lambda>k. moment ?s' ! i ! 0 ! k"
  let ?P = "\<lambda>j k. vandermonde ?s' ! i ! j ! k"
  let ?w = "\<lambda>j. phi ?s' ! i ! j"
  have pre: "preconditions T s = None"
    using ok by (rule success_preconditions)
  have c: "c = coeffs ?s'"
    using ok final_result [OF pre] by simp
  have "(\<Sum>j<?nn. c ! i ! j * ?P j m) =
      (\<Sum>j<?nn. (\<Sum>k<poly_size T. ?B k * ?P j k * ?w j) * ?P j m)"
    unfolding c using i by (intro sum.cong refl) (simp add: final_coeff_entry [OF pre])
  also have "\<dots> = (\<Sum>j<?nn. \<Sum>k<poly_size T. ?B k * (?P j k * ?P j m * ?w j))"
    unfolding sum_distrib_right by (intro sum.cong refl) (simp add: mult_ac)
  also have "\<dots> = (\<Sum>k<poly_size T. \<Sum>j<?nn. ?B k * (?P j k * ?P j m * ?w j))"
    by (rule sum.swap)
  also have "\<dots> = (\<Sum>k<poly_size T. ?B k * (\<Sum>j<?nn. ?P j k * ?P j m * ?w j))"
    by (simp add: sum_distrib_left)
  also have "\<dots> = (\<Sum>k<poly_size T. ?B k *
      moment (moment_computation T (acc_size (target_points s)) ?nn ?s') ! i ! k ! m)"
    using i m by (intro sum.cong refl) (simp add: moment_entry_sum)
  also have "\<dots> = (if m = 0 then 1 else 0)"
    by (rule inv)
  finally have main: "(\<Sum>j<?nn. c ! i ! j * ?P j m) = (if m = 0 then 1 else 0)" .
  have "(\<Sum>j<?nn. c ! i ! j) = 1" if "m = 0" and one: "\<forall>j<?nn. ?P j 0 = 1"
  proof -
    have "(\<Sum>j<?nn. c ! i ! j) = (\<Sum>j<?nn. c ! i ! j * ?P j 0)"
      using one by (intro sum.cong refl) simp
    also have "\<dots> = 1"
      using main \<open>m = 0\<close> by simp
    finally show ?thesis .
  qed
  with main show ?thesis by blast
qed

theorem basis_functions_reproduced_witness:
  "fst (movingLeastSquaresCoefficients scenario_A_args skew_memory) = Inr [[3 / 2, - (1 / 2)]]
   \<and> (0::nat) < acc_size (target_points skew_memory)
   \<and> (0::nat) < poly_size scenario_A_args
   \<and> (\<Sum>k<poly_size scenario_A_args.
         moment (snd (movingLeastSquaresCoefficients scenario_A_args skew_memory)) ! 0 ! 0 ! k
         * moment (moment_computation scenario_A_args (acc_size (target_points skew_memory))
             (extent1 (source_points skew_memory))
             (snd (movingLeastSquaresCoefficients scenario_A_args skew_memory))) ! 0 ! k ! 0)
       = (if (0::nat) = 0 then 1 else 0)
   \<and> vandermonde (snd (movingLeastSquaresCoefficients scenario_A_args skew_memory)) ! 0 ! 0 ! 0 = 1
   \<and> vandermonde (snd (movingLeastSquaresCoefficients scenario_A_args skew_memory)) ! 0 ! 1 ! 0 = 1
   \<and> (\<Sum>j<extent1 (source_points skew_memory).
         [[3 / 2, - (1 / 2)]] ! 0 ! j
         * vandermonde (snd (movingLeastSquaresCoefficients scenario_A_args skew_memory)) ! 0 ! j ! 0)
       = (1::rat)
   \<and> (\<Sum>j<extent1 (source_points skew_memory). [[3 / 2, - (1 / 2)]] ! 0 ! j) = (1::rat)"
proof -
  have h2: "0 < acc_size (target_points skew_memory)"
    by (simp add: skew_extents)
  have h3: "0 < poly_size scenario_A_args"
    by (simp add: scenario_A_args_def)
  have h4: "(\<Sum>k<poly_size scenario_A_args.
         moment (snd (movingLeastSquaresCoefficients scenario_A_args skew_memory)) ! 0 ! 0 ! k
         * moment (moment_computation scenario_A_args (acc_size (target_points skew_memory))
             (extent1 (source_points skew_memory))
             (snd (movingLeastSquaresCoefficients scenario_A_args skew_memory))) ! 0 ! k ! 0)
       = (if (0::nat) = 0 then 1 else 0)"
    by code_simp
  have p0: "vandermonde (snd (movingLeastSquaresCoefficients scenario_A_args skew_memory)) ! 0 ! 0 ! 0 = 1"
    by code_simp
  have p1: "vandermonde (snd (movingLeastSquaresCoefficients scenario_A_args skew_memory)) ! 0 ! 1 ! 0 = 1"
    by code_simp
  have one: "\<forall>j<extent1 (source_points skew_memory).
      vandermonde (snd (movingLeastSquaresCoefficients scenario_A_args skew_memory)) ! 0 ! j ! 0 = 1"
    using p0 p1 by (simp add: skew_extents less_Suc_eq numeral_2_eq_2)
  from basis_functions_reproduced [OF skew_result h2 h3 h4] one
  have "(\<Sum>j<extent1 (source_points skew_memory).
         [[3 / 2, - (1 / 2)]] ! 0 ! j
         * vandermonde (snd (movingLeastSquaresCoefficients scenario_A_args skew_memory)) ! 0 ! j ! 0)
       = (1::rat)"
    and "(\<Sum>j<extent1 (source_points skew_memory). [[3 / 2, - (1 / 2)]] ! 0 ! j) = (1::rat)"
    by simp_all
  with skew_result h2 h3 h4 p0 p1 show ?thesis
    by blast
qed

text \<open>
  A collapsed neighbourhood, in exact arithmetic (a linearly ordered field).  If every
  neighbour of target \<open>i\<close> has the target's coordinates, epsilon is positive and the
  distance of the origin to itself is \<open>0\<close>, then every relative coordinate of the
  target is the origin, its radius is \<open>1.1\<close> times epsilon and so not zero, every
  weight is the kernel at \<open>0\<close>, and every Vandermonde row is the basis at the origin.
\<close>

theorem collapsed_neighbourhood_values:
  fixes T :: "('a::linordered_field) template_args"
  assumes ok: "fst (movingLeastSquaresCoefficients T s) = Inr c"
    and eps: "0 < epsilon T"
    and i: "i < acc_size (target_points s)"
    and j: "j < extent1 (source_points s)"
    and same: "\<And>j d. j < extent1 (source_points s) \<Longrightarrow> d < dimension T \<Longrightarrow>
                 view_at (source_points s) i j ! d = acc_get (target_points s) i ! d"
    and d0: "distance T (origin T) (origin T) = 0"
  shows "source_ref_target (snd (movingLeastSquaresCoefficients T s)) ! i ! j = origin T
         \<and> radii (snd (movingLeastSquaresCoefficients T s)) ! i = (11 / 10) * epsilon T
         \<and> radii (snd (movingLeastSquaresCoefficients T s)) ! i \<noteq> 0
         \<and> phi (snd (movingLeastSquaresCoefficients T s)) ! i ! j = evaluate T 0
         \<and> vandermonde (snd (movingLeastSquaresCoefficients T s)) ! i ! j =
             map (\<lambda>k. evaluatePolynomialBasis T (origin T) ! k) [0..<poly_size T]"
proof -
  let ?s' = "snd (movingLeastSquaresCoefficients T s)"
  have pre: "preconditions T s = None"
    using ok by (rule success_preconditions)
  have rel: "source_ref_target ?s' ! i ! j' = origin T" if "j' < extent1 (source_points s)" for j'
  proof -
    have "map (\<lambda>k. view_at (source_points s) i j' ! k - acc_get (target_points s) i ! k)
            [0..<dimension T] = map (\<lambda>k. 0) [0..<dimension T]"
      using same [OF that] by (intro map_cong refl) simp
    also have "\<dots> = replicate (dimension T) 0"
      by (simp add: map_replicate_trivial)
    finally show ?thesis
      using i that
      by (simp add: final_source_ref_target [OF pre] nth_parallel_for_2 origin_def for_loop_fill)
  qed
  let ?D = "(\<lambda>j. distance T (source_ref_target ?s' ! i ! j) (origin T))
              ` {..<extent1 (source_points s)}"
  have "Max (insert (epsilon T) ?D) = epsilon T"
    using eps by (intro Max_floor) (auto simp: rel d0)
  then have r: "radii ?s' ! i = (11 / 10) * epsilon T"
    using i by (simp add: final_radii [OF pre] nth_parallel_for_1 for_loop_max)
  have w: "phi ?s' ! i ! j = evaluate T 0"
    using i j by (subst final_phi [OF pre]) (simp add: nth_parallel_for_2 rel d0)
  have v: "vandermonde ?s' ! i ! j =
      map (\<lambda>k. evaluatePolynomialBasis T (origin T) ! k) [0..<poly_size T]"
    using i j by (subst final_vandermonde [OF pre]) (simp add: nth_parallel_for_2 rel)
  from rel [OF j] r w v eps show ?thesis by simp
qed

theorem collapsed_neighbourhood_values_witness:
  "fst (movingLeastSquaresCoefficients scenario_A_args collapsed_memory) = Inr [[1 / 2, 1 / 2]]
   \<and> 0 < epsilon scenario_A_args
   \<and> (0::nat) < acc_size (target_points collapsed_memory)
   \<and> (1::nat) < extent1 (source_points collapsed_memory)
   \<and> (\<forall>j d. view_at (source_points collapsed_memory) 0 j ! d
              = acc_get (target_points collapsed_memory) 0 ! d)
   \<and> distance scenario_A_args (origin scenario_A_args) (origin scenario_A_args) = 0
   \<and> source_ref_target (snd (movingLeastSquaresCoefficients scenario_A_args collapsed_memory)) ! 0 ! 1
       = origin scenario_A_args
   \<and> radii (snd (movingLeastSquaresCoefficients scenario_A_args collapsed_memory)) ! 0
       = (11 / 10) * epsilon scenario_A_args
   \<and> radii (snd (movingLeastSquaresCoefficients scenario_A_args collapsed_memory)) ! 0 \<noteq> 0
   \<and> phi (snd (movingLeastSquaresCoefficients scenario_A_args collapsed_memory)) ! 0 ! 1
       = evaluate scenario_A_args 0
   \<and> vandermonde (snd (movingLeastSquaresCoefficients scenario_A_args collapsed_memory)) ! 0 ! 1
       = map (\<lambda>k. evaluatePolynomialBasis scenario_A_args (origin scenario_A_args) ! k)
           [0..<poly_size scenario_A_args]"
proof -
  have h3: "0 < acc_size (target_points collapsed_memory)"
    by (simp add: collapsed_extents)
  have h4: "1 < extent1 (source_points collapsed_memory)"
    by (simp add: collapsed_extents)
  have h5: "view_at (source_points collapsed_memory) 0 j ! d
              = acc_get (target_points collapsed_memory) 0 ! d" for j d
    by (simp add: collapsed_memory_def)
  have h6: "distance scenario_A_args (origin scenario_A_args) (origin scenario_A_args) = 0"
    by (simp add: scenario_A_args_def)
  from collapsed_neighbourhood_values
    [OF collapsed_result scenario_epsilon_pos h3 h4 h5 h6]
    collapsed_result scenario_epsilon_pos h3 h4 h5 h6
  show ?thesis by blast
qed

text \<open>
  A call that passes the checks at its head dispatches exactly the six kernels of the
  function, in the order of the data flow: relative coordinates, radii, weights,
  Vandermonde table, moment matrix, coefficients.
\<close>

theorem six_kernels_dispatched_in_order:
  "preconditions T s = None \<Longrightarrow>
   dispatched (snd (movingLeastSquaresCoefficients T s)) = dispatched s @
     [''ArborX::MovingLeastSquaresCoefficients::source_ref_target_fill'',
      ''ArborX::MovingLeastSquaresCoefficients::radii_computation'',
      ''ArborX::MovingLeastSquaresCoefficients::phi_computation'',
      ''ArborX::MovingLeastSquaresCoefficients::vandermonde_computation'',
      ''ArborX::MovingLeastSquaresCoefficients::moment_computation'',
      ''ArborX::MovingLeastSquaresCoefficients::coefficients_computation'']"
  by (simp add: movingLeastSquaresCoefficients_def Let_def stage_defs)

theorem six_kernels_dispatched_in_order_witness:
  "preconditions scenario_A_args scenario_A_memory = None
   \<and> dispatched (snd (movingLeastSquaresCoefficients scenario_A_args scenario_A_memory)) =
     [''ArborX::MovingLeastSquaresCoefficients::source_ref_target_fill'',
      ''ArborX::MovingLeastSquaresCoefficients::radii_computation'',
      ''ArborX::MovingLeastSquaresCoefficients::phi_computation'',
      ''ArborX::MovingLeastSquaresCoefficients::vandermonde_computation'',
      ''ArborX::MovingLeastSquaresCoefficients::moment_computation'',
      ''ArborX::MovingLeastSquaresCoefficients::coefficients_computation'']"
proof -
  have h: "preconditions scenario_A_args scenario_A_memory = None"
    using scenario_A_result by (rule success_preconditions)
  have d: "dispatched scenario_A_memory = []"
    by (simp add: scenario_A_memory_def)
  from six_kernels_dispatched_in_order [OF h] h d show ?thesis
    by simp
qed

end
